theory Spec2Isabelle
  imports Complex_Main "HOL-Library.AList"
begin

section \<open>The Referee: the generic comparison engine (referee-engine.js)\<close>

text \<open>
  A shallow embedding of the class \<open>RefereeEngine\<close>. JavaScript numbers are modelled as
  real numbers with exact arithmetic (no rounding, no NaN, no infinities). A field that may be
  absent from a JSON object is an \<open>option\<close>: \<open>None\<close> is JavaScript's \<open>undefined\<close>.
  A JavaScript object used as a dictionary is an association list of its own properties, in
  the order in which \<open>Object.keys\<close> and \<open>Object.entries\<close> enumerate them; criterion names
  are strings. Where the engine reads \<open>scores[criterion]\<close> of an evaluated option, the
  criterion is an own key of a sibling's \<open>scores\<close>, and the read is one of the own
  properties. A thrown \<open>TypeError\<close> is the left injection of a sum.
  The random raw scores and the number formatting of the host are parameters of the model.
\<close>

subsection \<open>Data\<close>

datatype error = TypeError

text \<open>The fields of a caller-supplied option that the engine reads.\<close>

record input_option =
  name :: string
  cost :: "real option"
  features :: "string list option"

record constraints =
  maxCost :: "real option"
  requiredFeatures :: "string list option"
  weights :: "(string \<rightharpoonup> real) option"

text \<open>
  What reading a property of a plain object yields: \<open>undefined\<close>, the value of an own
  property, or a member inherited from \<open>Object.prototype\<close>.
\<close>

datatype 'a property = Undefined | Own 'a | Inherited

text \<open>The value returned by \<open>evaluateCriterion\<close>.\<close>

record score =
  raw :: real
  weighted :: real
  explanation :: "string property"

text \<open>
  The object built by \<open>evaluateOptions\<close>: the spread \<open>...option\<close> is the field \<open>base\<close>,
  and \<open>oid\<close> is the identity of the freshly allocated object, which \<open>calculateConfidence\<close>
  compares with \<open>!==\<close>.
\<close>

record evaluated =
  base :: input_option
  scores :: "(string \<times> score) list"
  totalScore :: real
  meetsConstraints :: bool
  oid :: nat

subsection \<open>checkConstraints\<close>

text \<open>
  \<open>constraints.maxCost && option.cost > constraints.maxCost\<close>: the left operand is falsy when
  the key is absent and when it is the number 0; a comparison with an absent cost is false.
\<close>

definition exceedsMaxCost :: "input_option \<Rightarrow> constraints \<Rightarrow> bool" where
  "exceedsMaxCost option cs =
     (case maxCost cs of
        None \<Rightarrow> False
      | Some m \<Rightarrow> m \<noteq> 0 \<and> (case cost option of None \<Rightarrow> False | Some c \<Rightarrow> c > m))"

definition checkConstraints :: "input_option \<Rightarrow> constraints \<Rightarrow> bool" where
  "checkConstraints option cs =
     (if exceedsMaxCost option cs then False
      else (case requiredFeatures cs of
              Some required \<Rightarrow>
                list_all (\<lambda>feature. case features option of
                                       None \<Rightarrow> False
                                     | Some present \<Rightarrow> feature \<in> set present) required
            | None \<Rightarrow> True))"

subsection \<open>Plain objects\<close>

text \<open>
  The names every plain object inherits from \<open>Object.prototype\<close> in Node.js. Each of them reads
  as a function (\<open>__proto__\<close> as the prototype object): a value that is truthy and not a number.
\<close>

definition objectPrototypeNames :: "string list" where
  "objectPrototypeNames =
     [''constructor'', ''__defineGetter__'', ''__defineSetter__'', ''hasOwnProperty'',
      ''__lookupGetter__'', ''__lookupSetter__'', ''isPrototypeOf'', ''propertyIsEnumerable'',
      ''toString'', ''valueOf'', ''__proto__'', ''toLocaleString'']"

text \<open>\<open>obj[key]\<close> on a plain object with the own properties \<open>obj\<close>.\<close>

definition readProperty :: "(string \<rightharpoonup> 'a) \<Rightarrow> string \<Rightarrow> 'a property" where
  "readProperty obj key =
     (case obj key of
        Some v \<Rightarrow> Own v
      | None \<Rightarrow> if key \<in> set objectPrototypeNames then Inherited else Undefined)"

text \<open>
  The order of an object's own keys: the array indices (the decimal numerals without leading
  zeros of the integers up to \<open>2\<^sup>3\<^sup>2 - 2\<close>) in ascending numeric order, then the other names in
  the order in which they were first assigned.
\<close>

definition isDigit :: "char \<Rightarrow> bool" where
  "isDigit c \<longleftrightarrow> c \<in> set ''0123456789''"

definition digitValue :: "char \<Rightarrow> int" where
  "digitValue c = int (length (takeWhile (\<lambda>d. d \<noteq> c) ''0123456789''))"

definition decimalValue :: "string \<Rightarrow> int" where
  "decimalValue s = foldl (\<lambda>n c. 10 * n + digitValue c) 0 s"

definition isArrayIndex :: "string \<Rightarrow> bool" where
  "isArrayIndex s \<longleftrightarrow>
     s \<noteq> [] \<and> list_all isDigit s \<and> (s = ''0'' \<or> hd s \<noteq> CHR ''0'') \<and> decimalValue s \<le> 4294967294"

fun insertIndex :: "string \<Rightarrow> 'a \<Rightarrow> (string \<times> 'a) list \<Rightarrow> (string \<times> 'a) list" where
  "insertIndex k v [] = [(k, v)]"
| "insertIndex k v (p # ps) =
     (if isArrayIndex (fst p) \<and> decimalValue (fst p) < decimalValue k
      then p # insertIndex k v ps
      else (k, v) # p # ps)"

text \<open>
  \<open>obj[k] = v\<close>. A key already present keeps its place and gets the new value; a new key
  takes its place in the order above. Assigning to \<open>__proto__\<close> creates no own property (it
  sets the prototype when \<open>v\<close> is an object and does nothing when \<open>v\<close> is a number).
\<close>

definition assign :: "string \<Rightarrow> 'a \<Rightarrow> (string \<times> 'a) list \<Rightarrow> (string \<times> 'a) list" where
  "assign k v obj =
     (if k = ''__proto__'' then obj
      else if k \<in> set (map fst obj) then AList.update k v obj
      else if isArrayIndex k then insertIndex k v obj
      else obj @ [(k, v)])"

subsection \<open>evaluateCriterion\<close>

text \<open>The object literal \<open>this.defaultWeights\<close> of the constructor.\<close>

definition defaultWeights :: "string \<rightharpoonup> real" where
  "defaultWeights =
     map_of [(''performance'', 3 / 10), (''cost'', 25 / 100), (''ease_of_use'', 2 / 10),
             (''scalability'', 15 / 100), (''community_support'', 1 / 10)]"

text \<open>
  \<open>a || b\<close>: the left operand is skipped when it is \<open>undefined\<close> or the number 0, and taken
  when it is any other number or an inherited member.
\<close>

definition orElse :: "real property \<Rightarrow> real property \<Rightarrow> real property" where
  "orElse a b = (case a of Undefined \<Rightarrow> b | Own x \<Rightarrow> if x \<noteq> 0 then a else b | Inherited \<Rightarrow> a)"

text \<open>
  \<open>constraints.weights?.[criterion]\<close>: \<open>undefined\<close> without a \<open>weights\<close> object, else a read
  of that object, which was parsed from JSON and is a plain object.
\<close>

definition suppliedWeight :: "constraints \<Rightarrow> string \<Rightarrow> real property" where
  "suppliedWeight cs criterion =
     (case weights cs of None \<Rightarrow> Undefined | Some ws \<Rightarrow> readProperty ws criterion)"

text \<open>
  \<open>constraints.weights?.[criterion] || this.defaultWeights[criterion] || 0.1\<close>
\<close>

definition criterionWeight :: "constraints \<Rightarrow> string \<Rightarrow> real property" where
  "criterionWeight cs criterion =
     orElse (suppliedWeight cs criterion)
       (orElse (readProperty defaultWeights criterion) (Own (1 / 10)))"

text \<open>
  \<open>baseScore * weight\<close>. With a weight that is not a number (a member inherited under a
  criterion name such as \<open>toString\<close>) the code's product is NaN. The reals have no such
  value: the model's product is then 0, which is not the code's result, and every statement
  below about a weighted score or a total is about weights that are numbers.
\<close>

definition timesWeight :: "real \<Rightarrow> real property \<Rightarrow> real" where
  "timesWeight x weight = (case weight of Own w \<Rightarrow> x * w | Undefined \<Rightarrow> 0 | Inherited \<Rightarrow> 0)"

text \<open>
  \<open>Number.prototype.toFixed\<close> is a built-in of the host language; the engine only pastes
  its result into explanatory text, so it is a parameter \<open>toFixed digits x\<close> of the model.
\<close>

type_synonym formatter = "nat \<Rightarrow> real \<Rightarrow> string"

text \<open>
  \<open>explanations[criterion] || `Score: ...`\<close>: the four texts are non-empty, hence truthy, and
  so is an inherited member, which is then returned in place of a text.
\<close>

definition generateCriterionExplanation ::
    "formatter \<Rightarrow> input_option \<Rightarrow> string \<Rightarrow> real \<Rightarrow> string property" where
  "generateCriterionExplanation toFixed option criterion s =
     (let explanations = map_of
        [(''performance'', if s > 7 then ''Excellent response times and throughput''
                           else if s > 5 then ''Good performance for most use cases''
                           else ''May have performance limitations''),
         (''cost'', if s > 7 then ''Very cost-effective solution''
                    else if s > 5 then ''Reasonable pricing for features offered''
                    else ''Higher cost may impact budget''),
         (''ease_of_use'', if s > 7 then ''Intuitive and well-documented''
                           else if s > 5 then ''Moderate learning curve''
                           else ''Complex setup and configuration''),
         (''scalability'', if s > 7 then ''Scales seamlessly with growth''
                           else if s > 5 then ''Handles moderate scale well''
                           else ''Limited scalability options'')]
      in case readProperty explanations criterion of
           Own text \<Rightarrow> Own text
         | Inherited \<Rightarrow> Inherited
         | Undefined \<Rightarrow> Own (''Score: '' @ toFixed 1 s @ ''/10''))"

text \<open>
  \<open>Math.random()\<close> is the only source of the raw score; the value it returns at this call
  is the argument \<open>r\<close>.
\<close>

definition evaluateCriterion ::
    "formatter \<Rightarrow> real \<Rightarrow> input_option \<Rightarrow> string \<Rightarrow> constraints \<Rightarrow> score" where
  "evaluateCriterion toFixed r option criterion cs =
     (let baseScore = r * 10;
          weight = criterionWeight cs criterion
      in \<lparr>raw = baseScore, weighted = timesWeight baseScore weight,
          explanation = generateCriterionExplanation toFixed option criterion baseScore\<rparr>)"

subsection \<open>evaluateOptions\<close>

text \<open>
  The body of \<open>for (const criterion of criteria)\<close>, with the loop's state
  \<open>(scores, totalScore)\<close> as \<open>(acc, tot)\<close> and the position \<open>j\<close> in the criteria list;
  \<open>draws j\<close> is what \<open>Math.random()\<close> returns in the \<open>j\<close>-th iteration.
\<close>

fun scoreCriteria ::
    "formatter \<Rightarrow> (nat \<Rightarrow> real) \<Rightarrow> input_option \<Rightarrow> constraints \<Rightarrow> string list \<Rightarrow> nat \<Rightarrow>
     (string \<times> score) list \<times> real \<Rightarrow> (string \<times> score) list \<times> real" where
  "scoreCriteria toFixed draws option cs [] j (acc, tot) = (acc, tot)"
| "scoreCriteria toFixed draws option cs (criterion # rest) j (acc, tot) =
     (let s = evaluateCriterion toFixed (draws j) option criterion cs
      in scoreCriteria toFixed draws option cs rest (Suc j)
           (assign criterion s acc, tot + weighted s))"

definition evaluateOption ::
    "formatter \<Rightarrow> (nat \<Rightarrow> real) \<Rightarrow> string list \<Rightarrow> constraints \<Rightarrow> nat \<Rightarrow> input_option \<Rightarrow>
     evaluated" where
  "evaluateOption toFixed draws criteria cs i option =
     (case scoreCriteria toFixed draws option cs criteria 0 ([], 0) of
        (acc, tot) \<Rightarrow>
          \<lparr>base = option, scores = acc, totalScore = tot,
           meetsConstraints = checkConstraints option cs, oid = i\<rparr>)"

text \<open>
  \<open>options.map(...)\<close>: \<open>rnd i j\<close> is the random number drawn for option \<open>i\<close> and the
  \<open>j\<close>-th entry of the criteria list; the \<open>i\<close>-th result is a new object.
\<close>

definition evaluateOptions ::
    "formatter \<Rightarrow> (nat \<Rightarrow> nat \<Rightarrow> real) \<Rightarrow> input_option list \<Rightarrow> string list \<Rightarrow> constraints \<Rightarrow>
     evaluated list" where
  "evaluateOptions toFixed rnd options criteria cs =
     map (\<lambda>(i, option). evaluateOption toFixed (rnd i) criteria cs i option)
         (zip [0..<length options] options)"

subsection \<open>generateRecommendation\<close>

record recommendation =
  choice :: "evaluated option"
  reason :: string
  confidence :: "real option"
  alternatives :: "evaluated list option"

text \<open>\<open>Array.prototype.reduce\<close> without an initial value throws on an empty array.\<close>

definition reduce1 :: "('a \<Rightarrow> 'a \<Rightarrow> 'a) \<Rightarrow> 'a list \<Rightarrow> error + 'a" where
  "reduce1 f xs = (case xs of [] \<Rightarrow> Inl TypeError | x # rest \<Rightarrow> Inr (foldl f x rest))"

definition better :: "evaluated \<Rightarrow> evaluated \<Rightarrow> evaluated" where
  "better best current = (if totalScore current > totalScore best then current else best)"

text \<open>\<open>Array.prototype.join\<close>.\<close>

fun join :: "string \<Rightarrow> string list \<Rightarrow> string" where
  "join sep [] = []"
| "join sep [x] = x"
| "join sep (x # y # rest) = x @ sep @ join sep (y # rest)"

definition generateRecommendationReason :: "formatter \<Rightarrow> evaluated \<Rightarrow> evaluated list \<Rightarrow> string" where
  "generateRecommendationReason toFixed topOption allOptions =
     (let strengths = map fst (filter (\<lambda>(criterion, s). raw s > 7) (scores topOption))
      in ''Best overall choice due to strong '' @ join '', '' strengths
         @ '' with total score of '' @ toFixed 2 (totalScore topOption))"

definition calculateConfidence :: "evaluated \<Rightarrow> evaluated list \<Rightarrow> error + real" where
  "calculateConfidence topOption allOptions =
     (if length allOptions < 2 then Inr 1
      else case reduce1 better (filter (\<lambda>opt. oid opt \<noteq> oid topOption) allOptions) of
             Inl e \<Rightarrow> Inl e
           | Inr secondBest \<Rightarrow>
               (let scoreDiff = totalScore topOption - totalScore secondBest
                in Inr (min (5 / 10 + scoreDiff / 10) 1)))"

definition generateRecommendation ::
    "formatter \<Rightarrow> evaluated list \<Rightarrow> constraints \<Rightarrow> error + recommendation" where
  "generateRecommendation toFixed evaluatedOptions cs =
     (let validOptions = filter meetsConstraints evaluatedOptions
      in if length validOptions = 0
         then Inr \<lparr>choice = None, reason = ''No options meet the specified constraints'',
                   confidence = None, alternatives = Some (take 2 evaluatedOptions)\<rparr>
         else case reduce1 better validOptions of
                Inl e \<Rightarrow> Inl e
              | Inr topOption \<Rightarrow>
                  (case calculateConfidence topOption validOptions of
                     Inl e \<Rightarrow> Inl e
                   | Inr c \<Rightarrow>
                       Inr \<lparr>choice = Some topOption,
                            reason = generateRecommendationReason toFixed topOption validOptions,
                            confidence = Some c, alternatives = None\<rparr>))"

subsection \<open>analyzeTradeoffs and compareTwo\<close>

text \<open>The object returned by \<open>compareTwo\<close>; its field \<open>summary\<close> is \<open>summaryText\<close> here.\<close>

record tradeoff =
  hasTradeoff :: bool
  optionA :: string
  optionB :: string
  aStrengths :: "string list"
  bStrengths :: "string list"
  summaryText :: string

text \<open>
  The callback of \<open>Object.keys(optionA.scores).forEach\<close>, with the two arrays as state.
  Reading \<open>.raw\<close> of a criterion that an option's \<open>scores\<close> lacks throws.
\<close>

fun compareCriteria ::
    "string list \<Rightarrow> evaluated \<Rightarrow> evaluated \<Rightarrow> string list \<times> string list \<Rightarrow>
     error + string list \<times> string list" where
  "compareCriteria [] a b acc = Inr acc"
| "compareCriteria (criterion # rest) a b (aS, bS) =
     (case map_of (scores a) criterion of
        None \<Rightarrow> Inl TypeError
      | Some sa \<Rightarrow>
          (case map_of (scores b) criterion of
             None \<Rightarrow> Inl TypeError
           | Some sb \<Rightarrow>
               (let aDiff = raw sa - raw sb
                in compareCriteria rest a b
                     (if \<bar>aDiff\<bar> > 1
                      then (if aDiff > 0 then (aS @ [criterion], bS) else (aS, bS @ [criterion]))
                      else (aS, bS)))))"

definition compareTwo :: "evaluated \<Rightarrow> evaluated \<Rightarrow> error + tradeoff" where
  "compareTwo a b =
     (case compareCriteria (map fst (scores a)) a b ([], []) of
        Inl e \<Rightarrow> Inl e
      | Inr (aS, bS) \<Rightarrow>
          Inr \<lparr>hasTradeoff = (length aS > 0 \<and> length bS > 0),
               optionA = name (base a), optionB = name (base b),
               aStrengths = aS, bStrengths = bS,
               summaryText = name (base a) @ '' excels in '' @ join '', '' aS @ '' while ''
                             @ name (base b) @ '' is better for '' @ join '', '' bS\<rparr>)"

text \<open>
  The inner \<open>forEach\<close> over \<open>evaluatedOptions.slice(i + 1)\<close> and the outer one over
  \<open>evaluatedOptions\<close>; \<open>acc\<close> is the array \<open>tradeoffs\<close> both push to.
\<close>

fun compareWithOthers :: "evaluated \<Rightarrow> evaluated list \<Rightarrow> tradeoff list \<Rightarrow> error + tradeoff list" where
  "compareWithOthers option [] acc = Inr acc"
| "compareWithOthers option (other # rest) acc =
     (case compareTwo option other of
        Inl e \<Rightarrow> Inl e
      | Inr comparison \<Rightarrow>
          compareWithOthers option rest
            (if hasTradeoff comparison then acc @ [comparison] else acc))"

fun comparePairs :: "evaluated list \<Rightarrow> tradeoff list \<Rightarrow> error + tradeoff list" where
  "comparePairs [] acc = Inr acc"
| "comparePairs (option # rest) acc =
     (case compareWithOthers option rest acc of
        Inl e \<Rightarrow> Inl e
      | Inr acc' \<Rightarrow> comparePairs rest acc')"

definition analyzeTradeoffs :: "evaluated list \<Rightarrow> error + tradeoff list" where
  "analyzeTradeoffs evaluatedOptions = comparePairs evaluatedOptions []"

subsection \<open>generateSummary\<close>

text \<open>An entry of \<open>topChoices\<close>: the fields \<open>name\<close>, \<open>score\<close> and \<open>keyStrength\<close>.\<close>

record topChoice =
  choiceName :: string
  choiceScore :: string
  keyStrength :: string

record summary =
  totalOptions :: nat
  validOptions :: nat
  topChoices :: "topChoice list"
  keyInsight :: string

text \<open>
  The reduction used by \<open>getKeyStrength\<close> and \<open>generateKeyInsight\<close>, from the initial
  value \<open>{ criterion: '', score: 0 }\<close>.
\<close>

definition strongest :: "(string \<times> real) list \<Rightarrow> string \<times> real" where
  "strongest entries =
     foldl (\<lambda>best (criterion, s). if s > snd best then (criterion, s) else best) ([], 0) entries"

definition getKeyStrength :: "evaluated \<Rightarrow> string" where
  "getKeyStrength option = fst (strongest (map (\<lambda>(criterion, s). (criterion, raw s)) (scores option)))"

fun sumRaw :: "string \<Rightarrow> evaluated list \<Rightarrow> real \<Rightarrow> error + real" where
  "sumRaw criterion [] acc = Inr acc"
| "sumRaw criterion (opt # rest) acc =
     (case map_of (scores opt) criterion of
        None \<Rightarrow> Inl TypeError
      | Some s \<Rightarrow> sumRaw criterion rest (acc + raw s))"

fun averageScores ::
    "string list \<Rightarrow> evaluated list \<Rightarrow> (string \<times> real) list \<Rightarrow> error + (string \<times> real) list" where
  "averageScores [] evaluatedOptions avgScores = Inr avgScores"
| "averageScores (criterion # rest) evaluatedOptions avgScores =
     (case sumRaw criterion evaluatedOptions 0 of
        Inl e \<Rightarrow> Inl e
      | Inr rawSum \<Rightarrow>
          averageScores rest evaluatedOptions
            (assign criterion (rawSum / real (length evaluatedOptions)) avgScores))"

text \<open>\<open>evaluatedOptions[0].scores\<close> throws when the array is empty.\<close>

definition generateKeyInsight :: "formatter \<Rightarrow> evaluated list \<Rightarrow> constraints \<Rightarrow> error + string" where
  "generateKeyInsight toFixed evaluatedOptions cs =
     (case evaluatedOptions of
        [] \<Rightarrow> Inl TypeError
      | first # _ \<Rightarrow>
          (case averageScores (map fst (scores first)) evaluatedOptions [] of
             Inl e \<Rightarrow> Inl e
           | Inr avgScores \<Rightarrow>
               (let strongestArea = strongest avgScores
                in Inr (''Overall, options perform best in '' @ fst strongestArea
                        @ '' (avg: '' @ toFixed 1 (snd strongestArea) @ ''/10)''))))"

text \<open>
  \<open>sort((a, b) => b.totalScore - a.totalScore)\<close> is a stable sort by descending total score.
\<close>

definition generateSummary :: "formatter \<Rightarrow> evaluated list \<Rightarrow> constraints \<Rightarrow> error + summary" where
  "generateSummary toFixed evaluatedOptions cs =
     (let topThree = take 3 (sort_key (\<lambda>opt. - totalScore opt)
                               (filter meetsConstraints evaluatedOptions))
      in case generateKeyInsight toFixed evaluatedOptions cs of
           Inl e \<Rightarrow> Inl e
         | Inr insight \<Rightarrow>
             Inr \<lparr>totalOptions = length evaluatedOptions,
                  validOptions = length (filter meetsConstraints evaluatedOptions),
                  topChoices = map (\<lambda>opt. \<lparr>choiceName = name (base opt),
                                             choiceScore = toFixed 2 (totalScore opt),
                                             keyStrength = getKeyStrength opt\<rparr>) topThree,
                  keyInsight = insight\<rparr>)"

subsection \<open>compare\<close>

text \<open>
  The methods are \<open>async\<close> only in form: nothing is awaited but their own results, so a call
  is a computation that returns or throws (a rejected promise). The constant \<open>weights\<close> that
  \<open>compare\<close> binds first is never read.
\<close>

record comparisonResult =
  comparison :: "evaluated list"
  recommendation :: recommendation
  tradeoffs :: "tradeoff list"
  summary :: summary

definition compare ::
    "formatter \<Rightarrow> (nat \<Rightarrow> nat \<Rightarrow> real) \<Rightarrow> input_option list \<Rightarrow> string list \<Rightarrow> constraints \<Rightarrow>
     error + comparisonResult" where
  "compare toFixed rnd options criteria cs =
     (let evaluatedOptions = evaluateOptions toFixed rnd options criteria cs
      in case generateRecommendation toFixed evaluatedOptions cs of
           Inl e \<Rightarrow> Inl e
         | Inr r \<Rightarrow>
             (case analyzeTradeoffs evaluatedOptions of
                Inl e \<Rightarrow> Inl e
              | Inr ts \<Rightarrow>
                  (case generateSummary toFixed evaluatedOptions cs of
                     Inl e \<Rightarrow> Inl e
                   | Inr sm \<Rightarrow>
                       Inr \<lparr>comparison = evaluatedOptions, recommendation = r,
                            tradeoffs = ts, summary = sm\<rparr>)))"

subsection \<open>Notions of the specification\<close>

text \<open>The size of the valid set: the number of options of a list that pass \<open>checkConstraints\<close>.\<close>

definition validCount :: "input_option list \<Rightarrow> constraints \<Rightarrow> nat" where
  "validCount options cs = length (filter (\<lambda>option. checkConstraints option cs) options)"

text \<open>
  The sum of the specification's invariant: the \<open>weighted\<close> values of the scores the option
  holds, added up from 0 in the order of \<open>Object.values(scores)\<close>.
\<close>

definition spec_weightedSum :: "evaluated \<Rightarrow> real" where
  "spec_weightedSum e = foldl (\<lambda>t (c, s). t + weighted s) 0 (scores e)"

text \<open>
  Whether the caller supplies an entry for the criterion in \<open>constraints.weights\<close>.
\<close>

definition suppliesWeight :: "constraints \<Rightarrow> string \<Rightarrow> bool" where
  "suppliesWeight cs criterion \<longleftrightarrow>
     (case weights cs of None \<Rightarrow> False | Some ws \<Rightarrow> ws criterion \<noteq> None)"

text \<open>
  The own keys of \<open>scores\<close> after the loop of \<open>evaluateOptions\<close> over a criteria list, in
  the order in which \<open>Object.keys\<close> lists them.
\<close>

definition scoredCriteria :: "string list \<Rightarrow> string list" where
  "scoredCriteria criteria = map fst (foldl (\<lambda>obj c. assign c () obj) [] criteria)"

text \<open>
  A criterion name that is neither inherited from \<open>Object.prototype\<close> nor an array index.
\<close>

definition ordinaryName :: "string \<Rightarrow> bool" where
  "ordinaryName c \<longleftrightarrow> c \<notin> set objectPrototypeNames \<and> \<not> isArrayIndex c"

text \<open>
  \<open>rawScore(A, criterion)\<close> of section 4.4.
\<close>

definition rawOf :: "evaluated \<Rightarrow> string \<Rightarrow> real" where
  "rawOf e c = (case map_of (scores e) c of Some s \<Rightarrow> raw s | None \<Rightarrow> 0)"

text \<open>
  The criteria on which \<open>a\<close> differs from \<open>b\<close> by more than 1 and leads.
\<close>

definition spec_strengths :: "string list \<Rightarrow> evaluated \<Rightarrow> evaluated \<Rightarrow> string list" where
  "spec_strengths criteria a b =
     filter (\<lambda>c. \<bar>rawOf a c - rawOf b c\<bar> > 1 \<and> rawOf a c > rawOf b c) criteria"

text \<open>
  Some criterion where \<open>a\<close>'s raw score exceeds \<open>b\<close>'s by more than 1, and some criterion
  where \<open>b\<close>'s exceeds \<open>a\<close>'s by more than 1.
\<close>

definition spec_hasTradeoff :: "string list \<Rightarrow> evaluated \<Rightarrow> evaluated \<Rightarrow> bool" where
  "spec_hasTradeoff criteria a b \<longleftrightarrow>
     (\<exists>c \<in> set criteria. rawOf a c - rawOf b c > 1) \<and> (\<exists>c \<in> set criteria. rawOf b c - rawOf a c > 1)"

text \<open>
  The trade-off record of a pair, with the strengths as the specification defines them.
\<close>

definition spec_tradeoff :: "string list \<Rightarrow> evaluated \<Rightarrow> evaluated \<Rightarrow> tradeoff" where
  "spec_tradeoff criteria a b =
     \<lparr>hasTradeoff = True, optionA = name (base a), optionB = name (base b),
      aStrengths = spec_strengths criteria a b, bStrengths = spec_strengths criteria b a,
      summaryText = name (base a) @ '' excels in '' @ join '', '' (spec_strengths criteria a b)
                    @ '' while '' @ name (base b) @ '' is better for ''
                    @ join '', '' (spec_strengths criteria b a)\<rparr>"

text \<open>
  The unordered pairs of a list: every entry with every later entry.
\<close>

fun unorderedPairs :: "'a list \<Rightarrow> ('a \<times> 'a) list" where
  "unorderedPairs [] = []"
| "unorderedPairs (x # xs) = map (Pair x) xs @ unorderedPairs xs"

subsection \<open>Example inputs\<close>

text \<open>
  Concrete requests on which the theorems below are instantiated.
\<close>

definition noConstraints :: constraints where
  "noConstraints = \<lparr>maxCost = None, requiredFeatures = None, weights = None\<rparr>"

definition costly :: "string \<Rightarrow> real \<Rightarrow> input_option" where
  "costly n c = \<lparr>name = n, cost = Some c, features = None\<rparr>"

text \<open>A formatter that prints nothing: the texts it would fill in play no role below.\<close>

definition plain :: formatter where
  "plain digits x = []"

text \<open>Two options costing 100 and 200, compared under \<open>maxCost = 50\<close> on one criterion.\<close>

definition tooExpensive :: "evaluated list" where
  "tooExpensive =
     evaluateOptions plain (\<lambda>i j. 1 / 2) [costly ''A'' 100, costly ''B'' 200] [''performance'']
       (noConstraints\<lparr>maxCost := Some 50\<rparr>)"

text \<open>
  One option scored on a criteria list that names \<open>speed\<close> twice; the two calls of
  \<open>Math.random()\<close> return 0.1 and 0.2.
\<close>

definition twoDraws :: "nat \<Rightarrow> nat \<Rightarrow> real" where
  "twoDraws i j = (if j = 0 then 1 / 10 else 2 / 10)"

definition repeated :: "evaluated list" where
  "repeated = evaluateOptions plain twoDraws [costly ''A'' 10] [''speed'', ''speed''] noConstraints"

text \<open>
  Three options with equal scores, the first of them over the cost bound; and two options
  whose scores are 1.2 apart.
\<close>

definition tied :: "evaluated list" where
  "tied =
     evaluateOptions plain (\<lambda>i j. 1 / 2) [costly ''A'' 300, costly ''B'' 100, costly ''C'' 100]
       [''performance''] (noConstraints\<lparr>maxCost := Some 250\<rparr>)"



text \<open>
  Three options scored on two criteria with the raw scores (9, 2), (5, 6) and (3, 5).
\<close>

definition crossedDraws :: "nat \<Rightarrow> nat \<Rightarrow> real" where
  "crossedDraws i j =
     (if i = 0 then (if j = 0 then 9 / 10 else 2 / 10)
      else if i = 1 then (if j = 0 then 5 / 10 else 6 / 10)
      else (if j = 0 then 3 / 10 else 5 / 10))"

definition crossed :: "evaluated list" where
  "crossed =
     evaluateOptions plain crossedDraws [costly ''A'' 100, costly ''B'' 200, costly ''C'' 300]
       [''performance'', ''cost''] noConstraints"

definition threeOptions :: "input_option list" where
  "threeOptions = [costly ''A'' 100, costly ''B'' 200, costly ''C'' 300]"

section \<open>Properties\<close>

text \<open>
  The definitions unfolded when the engine is run on a concrete request.
\<close>

lemmas evaluate_simps =
  evaluateOptions_def evaluateOption_def evaluateCriterion_def generateCriterionExplanation_def
  criterionWeight_def orElse_def suppliedWeight_def defaultWeights_def readProperty_def
  objectPrototypeNames_def timesWeight_def assign_def isArrayIndex_def isDigit_def
  checkConstraints_def exceedsMaxCost_def noConstraints_def costly_def plain_def Let_def upt_rec

lemmas recommend_simps =
  generateRecommendation_def calculateConfidence_def generateRecommendationReason_def
  reduce1_def better_def

lemmas tradeoff_simps =
  analyzeTradeoffs_def compareTwo_def

lemmas summary_simps =
  generateSummary_def generateKeyInsight_def getKeyStrength_def strongest_def

subsection \<open>Constraint filter\<close>

lemma exceedsMaxCost_zero:
  "exceedsMaxCost option (cs\<lparr>maxCost := Some 0\<rparr>) = False"
  by (simp add: exceedsMaxCost_def)

lemma exceedsMaxCost_absent:
  "exceedsMaxCost option (cs\<lparr>maxCost := None\<rparr>) = False"
  by (simp add: exceedsMaxCost_def)

text \<open>
  C10. With \<open>constraints.maxCost\<close> equal to 0 no cost predicate is applied: the cost test is
  false whatever the option's cost, and \<open>checkConstraints\<close> returns what it returns when the
  \<open>maxCost\<close> key is absent.
\<close>

theorem C10_maxCost_zero_is_no_constraint:
  "\<not> exceedsMaxCost option (cs\<lparr>maxCost := Some 0\<rparr>)
   \<and> checkConstraints option (cs\<lparr>maxCost := Some 0\<rparr>)
     = checkConstraints option (cs\<lparr>maxCost := None\<rparr>)"
  by (simp add: checkConstraints_def exceedsMaxCost_zero exceedsMaxCost_absent)

lemma checkConstraints_maxCost_mono:
  assumes "m1 \<noteq> 0" and "m1 \<le> m2" and "checkConstraints option (cs\<lparr>maxCost := Some m1\<rparr>)"
  shows "checkConstraints option (cs\<lparr>maxCost := Some m2\<rparr>)"
  using assms
  by (auto simp: checkConstraints_def exceedsMaxCost_def split: option.splits if_splits)

lemma length_filter_mono:
  "(\<And>x. x \<in> set xs \<Longrightarrow> P x \<Longrightarrow> Q x) \<Longrightarrow> length (filter P xs) \<le> length (filter Q xs)"
  by (induction xs) auto

text \<open>
  C9, as stated, fails: with the bounds \<open>0 \<le> 5\<close> an option of cost 10 is valid under
  \<open>maxCost = 0\<close> (no cost test is made) and invalid under \<open>maxCost = 5\<close>.
\<close>

theorem C9_counterexample:
  "(0::real) \<le> 5 \<and>
   validCount [costly ''A'' 10] (noConstraints\<lparr>maxCost := Some 0\<rparr>) = 1 \<and>
   validCount [costly ''A'' 10] (noConstraints\<lparr>maxCost := Some 5\<rparr>) = 0"
  by (simp add: validCount_def checkConstraints_def exceedsMaxCost_def noConstraints_def costly_def)

text \<open>
  C9, amended. For every list of options and every pair of cost bounds \<open>m1 \<le> m2\<close> with
  \<open>m1\<close> different from 0, all other constraints equal, the number of options that pass
  \<open>checkConstraints\<close> under \<open>maxCost = m1\<close> is at most the number that pass under
  \<open>maxCost = m2\<close>.
\<close>

theorem C9_maxCost_monotone_nonzero:
  assumes "m1 \<noteq> 0" and "m1 \<le> m2"
  shows "validCount options (cs\<lparr>maxCost := Some m1\<rparr>)
         \<le> validCount options (cs\<lparr>maxCost := Some m2\<rparr>)"
  unfolding validCount_def
  by (rule length_filter_mono) (rule checkConstraints_maxCost_mono [OF assms])

theorem C9_witness:
  "(50::real) \<noteq> 0 \<and> (50::real) \<le> 150 \<and>
   validCount [costly ''A'' 100, costly ''B'' 200] (noConstraints\<lparr>maxCost := Some 50\<rparr>) = 0 \<and>
   validCount [costly ''A'' 100, costly ''B'' 200] (noConstraints\<lparr>maxCost := Some 150\<rparr>) = 1 \<and>
   validCount [costly ''A'' 100, costly ''B'' 200] (noConstraints\<lparr>maxCost := Some 50\<rparr>)
     \<le> validCount [costly ''A'' 100, costly ''B'' 200] (noConstraints\<lparr>maxCost := Some 150\<rparr>)"
  using C9_maxCost_monotone_nonzero [of 50 150 "[costly ''A'' 100, costly ''B'' 200]" noConstraints]
  by (simp add: validCount_def checkConstraints_def exceedsMaxCost_def noConstraints_def costly_def)

subsection \<open>Weights\<close>

lemma weighted_evaluateCriterion:
  "weighted (evaluateCriterion toFixed r option criterion cs)
   = timesWeight (r * 10) (criterionWeight cs criterion)"
  by (simp add: evaluateCriterion_def Let_def)

lemma raw_evaluateCriterion:
  "raw (evaluateCriterion toFixed r option criterion cs) = r * 10"
  by (simp add: evaluateCriterion_def Let_def)

text \<open>
  Under a name inherited from \<open>Object.prototype\<close> the weight is the inherited member, not a
  number.
\<close>

lemma criterionWeight_inherited:
  "criterionWeight noConstraints ''toString'' = Inherited"
  by (simp add: criterionWeight_def orElse_def suppliedWeight_def readProperty_def
      defaultWeights_def objectPrototypeNames_def noConstraints_def)

text \<open>
  C8, as stated, fails: with the single criterion \<open>performance\<close> and no weights supplied, a
  raw score of 5 is weighted to 3/2 (weight 0.3), while the reciprocal of the number of criteria
  would leave it at 5.
\<close>

theorem C8_counterexample:
  "\<not> suppliesWeight noConstraints ''performance'' \<and>
   weighted (evaluateCriterion plain (1 / 2) (costly ''A'' 10) ''performance'' noConstraints) = 3 / 2 \<and>
   raw (evaluateCriterion plain (1 / 2) (costly ''A'' 10) ''performance'' noConstraints)
     * (1 / real (length [''performance''])) = 5"
  by (simp add: weighted_evaluateCriterion raw_evaluateCriterion criterionWeight_def orElse_def
      suppliedWeight_def suppliesWeight_def readProperty_def timesWeight_def defaultWeights_def
      noConstraints_def)

text \<open>
  C8, amended. For every criterion that is not a name inherited from \<open>Object.prototype\<close>
  (such as \<open>toString\<close> or \<open>constructor\<close>) and for which the caller supplies no entry in
  \<open>constraints.weights\<close>, the weight used by \<open>evaluateCriterion\<close> is the engine's built-in
  default for that name (performance 0.3, cost 0.25, ease_of_use 0.2, scalability 0.15,
  community_support 0.1) and 0.1 for every other such name; it does not depend on the number
  of criteria.
\<close>

theorem C8_default_weight:
  assumes "\<not> suppliesWeight cs criterion" and "criterion \<notin> set objectPrototypeNames"
  shows "criterionWeight cs criterion
           = Own (if criterion = ''performance'' then 3 / 10
                  else if criterion = ''cost'' then 25 / 100
                  else if criterion = ''ease_of_use'' then 2 / 10
                  else if criterion = ''scalability'' then 15 / 100
                  else 1 / 10)
         \<and> weighted (evaluateCriterion toFixed r option criterion cs)
           = raw (evaluateCriterion toFixed r option criterion cs)
             * (if criterion = ''performance'' then 3 / 10
                else if criterion = ''cost'' then 25 / 100
                else if criterion = ''ease_of_use'' then 2 / 10
                else if criterion = ''scalability'' then 15 / 100
                else 1 / 10)"
proof -
  have supplied: "suppliedWeight cs criterion = Undefined"
    using assms
    by (auto simp: suppliedWeight_def suppliesWeight_def readProperty_def split: option.splits)
  have builtin: "readProperty defaultWeights criterion
                 = (case defaultWeights criterion of Some w \<Rightarrow> Own w | None \<Rightarrow> Undefined)"
    using assms(2) by (simp add: readProperty_def)
  have w: "criterionWeight cs criterion
           = Own (if criterion = ''performance'' then 3 / 10
                  else if criterion = ''cost'' then 25 / 100
                  else if criterion = ''ease_of_use'' then 2 / 10
                  else if criterion = ''scalability'' then 15 / 100
                  else 1 / 10)"
    unfolding criterionWeight_def supplied builtin
    by (simp add: orElse_def defaultWeights_def)
  show ?thesis
    by (simp add: w weighted_evaluateCriterion raw_evaluateCriterion timesWeight_def)
qed

theorem C8_witness:
  "\<not> suppliesWeight noConstraints ''latency'' \<and> ''latency'' \<notin> set objectPrototypeNames \<and>
   criterionWeight noConstraints ''latency'' = Own (1 / 10) \<and>
   weighted (evaluateCriterion plain (1 / 2) (costly ''A'' 10) ''latency'' noConstraints) = 1 / 2"
  using C8_default_weight [of noConstraints "''latency''" plain "1 / 2" "costly ''A'' 10"]
  by (simp add: raw_evaluateCriterion suppliesWeight_def objectPrototypeNames_def noConstraints_def)

subsection \<open>Evaluated options\<close>

text \<open>The own keys of an object after an assignment depend on its own keys only.\<close>

lemma strip_update:
  "map (\<lambda>p. (fst p, ())) (AList.update k v obj) = AList.update k () (map (\<lambda>p. (fst p, ())) obj)"
  by (induction obj) auto

lemma strip_insertIndex:
  "map (\<lambda>p. (fst p, ())) (insertIndex k v obj) = insertIndex k () (map (\<lambda>p. (fst p, ())) obj)"
  by (induction obj) auto

lemma strip_assign:
  "map (\<lambda>p. (fst p, ())) (assign k v obj) = assign k () (map (\<lambda>p. (fst p, ())) obj)"
  by (simp add: assign_def strip_update strip_insertIndex comp_def)

lemma scoreCriteria_keys:
  "map (\<lambda>p. (fst p, ())) (fst (scoreCriteria toFixed draws option cs criteria j (acc, tot)))
   = foldl (\<lambda>obj c. assign c () obj) (map (\<lambda>p. (fst p, ())) acc) criteria"
  by (induction criteria arbitrary: j acc tot) (simp_all add: Let_def strip_assign)

lemma scores_evaluateOption:
  "map fst (scores (evaluateOption toFixed draws criteria cs i option)) = scoredCriteria criteria"
proof -
  obtain acc' tot' where
    sc: "scoreCriteria toFixed draws option cs criteria 0 ([], 0) = (acc', tot')"
    by (cases "scoreCriteria toFixed draws option cs criteria 0 ([], 0)")
  from scoreCriteria_keys [of toFixed draws option cs criteria 0 "[]" 0] sc
  have "map (\<lambda>p. (fst p, ())) acc' = foldl (\<lambda>obj c. assign c () obj) [] criteria" by simp
  then have "map fst (map (\<lambda>p. (fst p, ())) acc') = scoredCriteria criteria"
    by (simp add: scoredCriteria_def)
  then have "map fst acc' = scoredCriteria criteria" by (simp add: comp_def)
  then show ?thesis using sc by (simp add: evaluateOption_def)
qed

lemma base_evaluateOption [simp]:
  "base (evaluateOption toFixed draws criteria cs i option) = option"
  by (simp add: evaluateOption_def split: prod.splits)

lemma oid_evaluateOption [simp]:
  "oid (evaluateOption toFixed draws criteria cs i option) = i"
  by (simp add: evaluateOption_def split: prod.splits)

lemma meetsConstraints_evaluateOption [simp]:
  "meetsConstraints (evaluateOption toFixed draws criteria cs i option) = checkConstraints option cs"
  by (simp add: evaluateOption_def split: prod.splits)

lemma length_evaluateOptions:
  "length (evaluateOptions toFixed rnd options criteria cs) = length options"
  by (simp add: evaluateOptions_def)

lemma nth_evaluateOptions:
  "i < length options \<Longrightarrow>
   evaluateOptions toFixed rnd options criteria cs ! i
   = evaluateOption toFixed (rnd i) criteria cs i (options ! i)"
  by (simp add: evaluateOptions_def)

lemma set_evaluateOptions:
  assumes "e \<in> set (evaluateOptions toFixed rnd options criteria cs)"
  shows "\<exists>i < length options. e = evaluateOption toFixed (rnd i) criteria cs i (options ! i)"
  using assms
  by (auto simp: evaluateOptions_def set_zip)

text \<open>
  Every input option is in the result, at its own position, and the results are pairwise
  different objects scored on the same criteria.
\<close>

lemma base_evaluateOptions:
  "map base (evaluateOptions toFixed rnd options criteria cs) = options"
  by (rule nth_equalityI) (simp_all add: length_evaluateOptions nth_evaluateOptions)

lemma oid_evaluateOptions:
  "map oid (evaluateOptions toFixed rnd options criteria cs) = [0..<length options]"
  by (rule nth_equalityI) (simp_all add: length_evaluateOptions nth_evaluateOptions)

lemma scores_evaluateOptions:
  "\<forall>e \<in> set (evaluateOptions toFixed rnd options criteria cs).
     map fst (scores e) = scoredCriteria criteria"
  using set_evaluateOptions scores_evaluateOption by metis

subsection \<open>Total score\<close>

lemma assign_ordinary:
  assumes "ordinaryName k" and "k \<notin> set (map fst obj)"
  shows "assign k v obj = obj @ [(k, v)]"
  using assms by (auto simp: assign_def ordinaryName_def objectPrototypeNames_def)

text \<open>
  The loop over pairwise different ordinary names, none of them scored yet, keeps the total
  equal to the sum of the scores held, and appends one score per name.
\<close>

lemma scoreCriteria_ordinary:
  assumes "distinct criteria" and "\<forall>c \<in> set criteria. ordinaryName c"
    and "set criteria \<inter> set (map fst acc) = {}"
    and "tot = foldl (\<lambda>t (c, s). t + weighted s) 0 acc"
    and "scoreCriteria toFixed draws option cs criteria j (acc, tot) = (acc', tot')"
  shows "map fst acc' = map fst acc @ criteria \<and> tot' = foldl (\<lambda>t (c, s). t + weighted s) 0 acc'"
  using assms
proof (induction criteria arbitrary: j acc tot)
  case Nil
  then show ?case by auto
next
  case (Cons c rest)
  define s where "s = evaluateCriterion toFixed (draws j) option c cs"
  have fresh: "c \<notin> set (map fst acc)" using Cons.prems(3) by auto
  have ord: "ordinaryName c" using Cons.prems(2) by simp
  have step: "scoreCriteria toFixed draws option cs rest (Suc j) (acc @ [(c, s)], tot + weighted s)
              = (acc', tot')"
    using Cons.prems(5) by (simp add: Let_def s_def assign_ordinary [OF ord fresh])
  have d: "distinct rest" and notin: "c \<notin> set rest" using Cons.prems(1) by auto
  have o: "\<forall>c \<in> set rest. ordinaryName c" using Cons.prems(2) by simp
  have disj: "set rest \<inter> set (map fst (acc @ [(c, s)])) = {}"
    using Cons.prems(3) notin by auto
  have inv: "tot + weighted s = foldl (\<lambda>t (c, s). t + weighted s) 0 (acc @ [(c, s)])"
    using Cons.prems(4) by simp
  from Cons.IH [OF d o disj inv step] show ?case by simp
qed

text \<open>
  On a criteria list of pairwise different ordinary names the invariant holds: the scores are
  those of the criteria, in order, and \<open>totalScore\<close> is their sum.
\<close>

lemma totalScore_is_sum_ordinary:
  assumes "distinct criteria" and "\<forall>c \<in> set criteria. ordinaryName c"
    and "e \<in> set (evaluateOptions toFixed rnd options criteria cs)"
  shows "map fst (scores e) = criteria \<and> totalScore e = spec_weightedSum e"
proof -
  from set_evaluateOptions [OF assms(3)] obtain i where
    e: "e = evaluateOption toFixed (rnd i) criteria cs i (options ! i)" by blast
  obtain acc' tot' where
    sc: "scoreCriteria toFixed (rnd i) (options ! i) cs criteria 0 ([], 0) = (acc', tot')"
    by (cases "scoreCriteria toFixed (rnd i) (options ! i) cs criteria 0 ([], 0)")
  have "set criteria \<inter> set (map fst ([] :: (string \<times> score) list)) = {}" by simp
  moreover have "(0::real) = foldl (\<lambda>t (c, s). t + weighted s) 0 ([] :: (string \<times> score) list)"
    by simp
  ultimately have "map fst acc' = map fst ([] :: (string \<times> score) list) @ criteria
      \<and> tot' = foldl (\<lambda>t (c, s). t + weighted s) 0 acc'"
    using scoreCriteria_ordinary [OF assms(1) assms(2) _ _ sc] by blast
  moreover have "scores e = acc'" and "totalScore e = tot'"
    using e sc by (simp_all add: evaluateOption_def)
  ultimately show ?thesis by (simp add: spec_weightedSum_def)
qed

text \<open>
  C1. The invariant \<open>totalScore(o) = \<Sigma>\<^sub>c weighted(o, c)\<close> is broken by \<open>evaluateOptions\<close> on
  a criteria list that names a criterion twice. On the criteria \<open>['speed', 'speed']\<close> with the
  random draws 0.1 and 0.2 the option returned holds the single score \<open>scores.speed\<close> with
  \<open>weighted = 0.2\<close>, the second assignment having replaced the first, while \<open>totalScore\<close> has
  added both weighted values and is 0.3.
\<close>

theorem C1_repeated_criterion_breaks_sum:
  "length repeated = 1 \<and> map fst (scores (repeated ! 0)) = [''speed''] \<and>
   spec_weightedSum (repeated ! 0) = 2 / 10 \<and> totalScore (repeated ! 0) = 3 / 10"
  by (simp add: repeated_def twoDraws_def spec_weightedSum_def evaluate_simps)

subsection \<open>Recommendation\<close>

lemma generateRecommendation_none:
  assumes "\<forall>opt \<in> set evaluatedOptions. \<not> meetsConstraints opt"
  shows "generateRecommendation toFixed evaluatedOptions cs
           = Inr \<lparr>choice = None, reason = ''No options meet the specified constraints'',
                  confidence = None, alternatives = Some (take 2 evaluatedOptions)\<rparr>"
proof -
  from assms have "filter meetsConstraints evaluatedOptions = []"
    by (simp add: filter_empty_conv)
  then show ?thesis
    by (simp add: generateRecommendation_def)
qed

text \<open>
  C5. When no evaluated option meets the constraints, \<open>generateRecommendation\<close> returns a
  value: the choice is null, the reason is the fixed text, and the alternatives are the first
  two entries of the unfiltered list (two entries whenever the list has at least two).
\<close>

theorem C5_no_valid_options:
  assumes "\<forall>opt \<in> set evaluatedOptions. \<not> meetsConstraints opt"
  shows "generateRecommendation toFixed evaluatedOptions cs
           = Inr \<lparr>choice = None, reason = ''No options meet the specified constraints'',
                  confidence = None, alternatives = Some (take 2 evaluatedOptions)\<rparr>
         \<and> (2 \<le> length evaluatedOptions \<longrightarrow> length (take 2 evaluatedOptions) = 2)"
  using generateRecommendation_none [OF assms] by simp

theorem C5_witness:
  "map meetsConstraints tooExpensive = [False, False] \<and>
   generateRecommendation plain tooExpensive (noConstraints\<lparr>maxCost := Some 50\<rparr>)
     = Inr \<lparr>choice = None, reason = ''No options meet the specified constraints'',
            confidence = None, alternatives = Some tooExpensive\<rparr> \<and>
   length (take 2 tooExpensive) = 2"
  using C5_no_valid_options [of tooExpensive plain "noConstraints\<lparr>maxCost := Some 50\<rparr>"]
  by (simp add: tooExpensive_def evaluate_simps)

lemma reduce1_single: "reduce1 f [x] = Inr x"
  by (simp add: reduce1_def)

lemma reduce1_snoc:
  "reduce1 f zs = Inr r \<Longrightarrow> reduce1 f (zs @ [y]) = Inr (f r y)"
  by (cases zs) (auto simp: reduce1_def)

text \<open>
  Reducing a non-empty list with \<open>better\<close> returns its first entry of maximal total score.
\<close>

lemma reduce1_better_first_max:
  assumes "zs \<noteq> []"
  shows "\<exists>i < length zs. reduce1 better zs = Inr (zs ! i)
           \<and> (\<forall>z \<in> set zs. totalScore z \<le> totalScore (zs ! i))
           \<and> (\<forall>z \<in> set (take i zs). totalScore z < totalScore (zs ! i))"
  using assms
proof (induction zs rule: rev_nonempty_induct)
  case (single x)
  have "0 < length [x] \<and> reduce1 better [x] = Inr ([x] ! 0)
        \<and> (\<forall>z \<in> set [x]. totalScore z \<le> totalScore ([x] ! 0))
        \<and> (\<forall>z \<in> set (take 0 [x]). totalScore z < totalScore ([x] ! 0))"
    by (simp add: reduce1_single)
  then show ?case by blast
next
  case (snoc y zs)
  then obtain i where i: "i < length zs" and r: "reduce1 better zs = Inr (zs ! i)"
    and mx: "\<forall>z \<in> set zs. totalScore z \<le> totalScore (zs ! i)"
    and fst: "\<forall>z \<in> set (take i zs). totalScore z < totalScore (zs ! i)"
    by blast
  have red: "reduce1 better (zs @ [y]) = Inr (better (zs ! i) y)"
    by (rule reduce1_snoc [OF r])
  show ?case
  proof (cases "totalScore y > totalScore (zs ! i)")
    case True
    let ?k = "length zs"
    have "?k < length (zs @ [y])" by simp
    moreover have "reduce1 better (zs @ [y]) = Inr ((zs @ [y]) ! ?k)"
      using red True by (simp add: better_def)
    moreover have "\<forall>z \<in> set (zs @ [y]). totalScore z \<le> totalScore ((zs @ [y]) ! ?k)"
      using mx True by fastforce
    moreover have "\<forall>z \<in> set (take ?k (zs @ [y])). totalScore z < totalScore ((zs @ [y]) ! ?k)"
      using mx True by fastforce
    ultimately show ?thesis by blast
  next
    case False
    have "i < length (zs @ [y])" using i by simp
    moreover have "reduce1 better (zs @ [y]) = Inr ((zs @ [y]) ! i)"
      using red False i by (simp add: better_def nth_append)
    moreover have "\<forall>z \<in> set (zs @ [y]). totalScore z \<le> totalScore ((zs @ [y]) ! i)"
      using mx False i by (auto simp: nth_append)
    moreover have "\<forall>z \<in> set (take i (zs @ [y])). totalScore z < totalScore ((zs @ [y]) ! i)"
      using fst i by (simp add: nth_append)
    ultimately show ?thesis by blast
  qed
qed

lemma reduce1_better_mem: "reduce1 better zs = Inr r \<Longrightarrow> r \<in> set zs"
proof -
  assume r: "reduce1 better zs = Inr r"
  then have "zs \<noteq> []" by (auto simp: reduce1_def)
  from reduce1_better_first_max [OF this] r show ?thesis by auto
qed

text \<open>
  Among two or more pairwise different objects, one is not \<open>topOption\<close>.
\<close>

lemma other_object_exists:
  assumes "distinct (map oid all)" and "2 \<le> length all"
  shows "filter (\<lambda>opt. oid opt \<noteq> oid topOption) all \<noteq> []"
proof -
  from assms(2) obtain a b rest where all: "all = a # b # rest"
    by (cases all; cases "tl all") auto
  with assms(1) have "oid a \<noteq> oid b" by auto
  then have "oid a \<noteq> oid topOption \<or> oid b \<noteq> oid topOption" by auto
  then show ?thesis using all by (auto simp: filter_empty_conv)
qed

lemma calculateConfidence_value:
  assumes "distinct (map oid all)" and "topOption \<in> set all"
    and "\<forall>z \<in> set all. totalScore z \<le> totalScore topOption"
  shows "\<exists>c. calculateConfidence topOption all = Inr c \<and> 1 / 2 \<le> c \<and> c \<le> 1
           \<and> (length all < 2 \<longrightarrow> c = 1)
           \<and> (2 \<le> length all \<longrightarrow>
                (\<exists>second \<in> set all. oid second \<noteq> oid topOption
                   \<and> (\<forall>z \<in> set all. oid z \<noteq> oid topOption \<longrightarrow> totalScore z \<le> totalScore second)
                   \<and> c = min (1 / 2 + (totalScore topOption - totalScore second) / 10) 1))"
proof (cases "length all < 2")
  case True
  then show ?thesis by (simp add: calculateConfidence_def)
next
  case False
  let ?others = "filter (\<lambda>opt. oid opt \<noteq> oid topOption) all"
  from False have two: "2 \<le> length all" by simp
  have ne: "?others \<noteq> []" by (rule other_object_exists [OF assms(1) two])
  from reduce1_better_first_max [OF ne] obtain k where k: "k < length ?others"
    and r: "reduce1 better ?others = Inr (?others ! k)"
    and mx: "\<forall>z \<in> set ?others. totalScore z \<le> totalScore (?others ! k)"
    by blast
  let ?second = "?others ! k"
  let ?c = "min (1 / 2 + (totalScore topOption - totalScore ?second) / 10) (1::real)"
  have mem: "?second \<in> set ?others" using k by (rule nth_mem)
  then have sec: "?second \<in> set all" and other: "oid ?second \<noteq> oid topOption" by simp_all
  have conf: "calculateConfidence topOption all = Inr ?c"
    using False r by (simp add: calculateConfidence_def Let_def)
  have "totalScore ?second \<le> totalScore topOption" using assms(3) sec by blast
  then have lo: "1 / 2 \<le> ?c" by simp
  have hi: "?c \<le> 1" by simp
  have best: "\<forall>z \<in> set all. oid z \<noteq> oid topOption \<longrightarrow> totalScore z \<le> totalScore ?second"
    using mx by simp
  show ?thesis using conf lo hi two sec other best False by blast
qed

lemma generateRecommendation_value:
  assumes "distinct (map oid evaluatedOptions)" and "\<exists>opt \<in> set evaluatedOptions. meetsConstraints opt"
  shows "\<exists>i c. i < length (filter meetsConstraints evaluatedOptions)
           \<and> (\<forall>z \<in> set (filter meetsConstraints evaluatedOptions).
                 totalScore z \<le> totalScore (filter meetsConstraints evaluatedOptions ! i))
           \<and> (\<forall>z \<in> set (take i (filter meetsConstraints evaluatedOptions)).
                 totalScore z < totalScore (filter meetsConstraints evaluatedOptions ! i))
           \<and> calculateConfidence (filter meetsConstraints evaluatedOptions ! i)
                 (filter meetsConstraints evaluatedOptions) = Inr c
           \<and> generateRecommendation toFixed evaluatedOptions cs
               = Inr \<lparr>choice = Some (filter meetsConstraints evaluatedOptions ! i),
                      reason = generateRecommendationReason toFixed
                                 (filter meetsConstraints evaluatedOptions ! i)
                                 (filter meetsConstraints evaluatedOptions),
                      confidence = Some c, alternatives = None\<rparr>"
proof -
  let ?valid = "filter meetsConstraints evaluatedOptions"
  have ne: "?valid \<noteq> []" using assms(2) by (simp add: filter_empty_conv)
  have dist: "distinct (map oid ?valid)" using assms(1) by (rule distinct_map_filter)
  from reduce1_better_first_max [OF ne] obtain i where i: "i < length ?valid"
    and r: "reduce1 better ?valid = Inr (?valid ! i)"
    and mx: "\<forall>z \<in> set ?valid. totalScore z \<le> totalScore (?valid ! i)"
    and fst: "\<forall>z \<in> set (take i ?valid). totalScore z < totalScore (?valid ! i)"
    by blast
  have mem: "?valid ! i \<in> set ?valid" using i by (rule nth_mem)
  from calculateConfidence_value [OF dist mem mx] obtain c where
    c: "calculateConfidence (?valid ! i) ?valid = Inr c" by blast
  have "generateRecommendation toFixed evaluatedOptions cs
          = Inr \<lparr>choice = Some (?valid ! i),
                 reason = generateRecommendationReason toFixed (?valid ! i) ?valid,
                 confidence = Some c, alternatives = None\<rparr>"
    using ne r c by (simp add: generateRecommendation_def Let_def)
  with i mx fst c show ?thesis by blast
qed

lemma generateRecommendation_returns:
  assumes "distinct (map oid evaluatedOptions)"
  shows "\<exists>r. generateRecommendation toFixed evaluatedOptions cs = Inr r"
proof (cases "\<exists>opt \<in> set evaluatedOptions. meetsConstraints opt")
  case True
  from generateRecommendation_value [OF assms True, of toFixed cs] show ?thesis by blast
next
  case False
  then have "\<forall>opt \<in> set evaluatedOptions. \<not> meetsConstraints opt" by simp
  from generateRecommendation_none [OF this] show ?thesis by blast
qed

lemma choice_meetsConstraints:
  assumes "generateRecommendation toFixed evaluatedOptions cs = Inr r" and "choice r = Some opt"
  shows "opt \<in> set evaluatedOptions \<and> meetsConstraints opt"
proof -
  from assms have "reduce1 better (filter meetsConstraints evaluatedOptions) = Inr opt"
    by (auto simp: generateRecommendation_def Let_def split: if_splits sum.splits)
  from reduce1_better_mem [OF this] show ?thesis by simp
qed

text \<open>
  C3. When at least one evaluated option meets the constraints, \<open>generateRecommendation\<close>
  returns as choice a constraint-satisfying option whose \<open>totalScore\<close> is maximal among the
  valid options, and every valid option that precedes it in input order scores strictly less:
  of several valid options with the maximal score, the first is chosen. (The evaluated options
  are pairwise different objects, as \<open>evaluateOptions\<close> builds them.)
\<close>

theorem C3_choice_is_first_maximum:
  assumes "distinct (map oid evaluatedOptions)" and "\<exists>opt \<in> set evaluatedOptions. meetsConstraints opt"
  shows "\<exists>r i. generateRecommendation toFixed evaluatedOptions cs = Inr r
           \<and> i < length (filter meetsConstraints evaluatedOptions)
           \<and> choice r = Some (filter meetsConstraints evaluatedOptions ! i)
           \<and> meetsConstraints (filter meetsConstraints evaluatedOptions ! i)
           \<and> (\<forall>z \<in> set (filter meetsConstraints evaluatedOptions).
                 totalScore z \<le> totalScore (filter meetsConstraints evaluatedOptions ! i))
           \<and> (\<forall>z \<in> set (take i (filter meetsConstraints evaluatedOptions)).
                 totalScore z < totalScore (filter meetsConstraints evaluatedOptions ! i))"
proof -
  let ?valid = "filter meetsConstraints evaluatedOptions"
  from generateRecommendation_value [OF assms, of toFixed cs] obtain i c where
    i: "i < length ?valid"
    and mx: "\<forall>z \<in> set ?valid. totalScore z \<le> totalScore (?valid ! i)"
    and fst: "\<forall>z \<in> set (take i ?valid). totalScore z < totalScore (?valid ! i)"
    and g: "generateRecommendation toFixed evaluatedOptions cs
              = Inr \<lparr>choice = Some (?valid ! i),
                     reason = generateRecommendationReason toFixed (?valid ! i) ?valid,
                     confidence = Some c, alternatives = None\<rparr>"
    by blast
  let ?r = "\<lparr>choice = Some (?valid ! i),
             reason = generateRecommendationReason toFixed (?valid ! i) ?valid,
             confidence = Some c, alternatives = None\<rparr>"
  have "?valid ! i \<in> set ?valid" using i by (rule nth_mem)
  then have mc: "meetsConstraints (?valid ! i)" by simp
  have ch: "choice ?r = Some (?valid ! i)" by simp
  from g ch i mc mx fst show ?thesis by blast
qed

theorem C3_witness:
  "distinct (map oid tied) \<and> map meetsConstraints tied = [False, True, True]
   \<and> map totalScore tied = [3 / 2, 3 / 2, 3 / 2]
   \<and> (\<exists>r. generateRecommendation plain tied (noConstraints\<lparr>maxCost := Some 250\<rparr>) = Inr r
            \<and> choice r = Some (tied ! 1))"
  using C3_choice_is_first_maximum [of tied plain "noConstraints\<lparr>maxCost := Some 250\<rparr>"]
  by (simp add: tied_def evaluate_simps recommend_simps)



subsection \<open>Trade-offs\<close>

lemma has_scores: "c \<in> set (map fst (scores e)) \<Longrightarrow> map_of (scores e) c \<noteq> None"
  by (simp add: map_of_eq_None_iff)

lemma compareCriteria_value:
  assumes "\<forall>c \<in> set criteria. map_of (scores a) c \<noteq> None \<and> map_of (scores b) c \<noteq> None"
  shows "compareCriteria criteria a b (aS, bS)
         = Inr (aS @ spec_strengths criteria a b, bS @ spec_strengths criteria b a)"
  using assms
proof (induction criteria arbitrary: aS bS)
  case Nil
  then show ?case by (simp add: spec_strengths_def)
next
  case (Cons c rest)
  from Cons.prems obtain sa sb where sa: "map_of (scores a) c = Some sa"
    and sb: "map_of (scores b) c = Some sb" by auto
  have rest: "\<forall>c \<in> set rest. map_of (scores a) c \<noteq> None \<and> map_of (scores b) c \<noteq> None"
    using Cons.prems by simp
  have ra: "rawOf a c = raw sa" and rb: "rawOf b c = raw sb"
    using sa sb by (simp_all add: rawOf_def)
  show ?case
    using sa sb ra rb Cons.IH [OF rest]
    by (auto simp: Let_def spec_strengths_def)
qed

lemma spec_strengths_nonempty:
  "spec_strengths criteria a b \<noteq> [] \<longleftrightarrow> (\<exists>c \<in> set criteria. rawOf a c - rawOf b c > 1)"
proof -
  have "(\<bar>x - y\<bar> > 1 \<and> x > y) \<longleftrightarrow> x - y > 1" for x y :: real by arith
  then show ?thesis by (simp add: spec_strengths_def filter_empty_conv)
qed

lemma compareTwo_value:
  assumes "map fst (scores a) = criteria" and "map fst (scores b) = criteria"
  shows "compareTwo a b = Inr ((spec_tradeoff criteria a b)\<lparr>hasTradeoff := spec_hasTradeoff criteria a b\<rparr>)"
proof -
  have "\<forall>c \<in> set criteria. map_of (scores a) c \<noteq> None \<and> map_of (scores b) c \<noteq> None"
    using assms has_scores by metis
  from compareCriteria_value [OF this, of "[]" "[]"] show ?thesis
    using assms(1)
    by (simp add: compareTwo_def spec_tradeoff_def spec_hasTradeoff_def
        spec_strengths_nonempty [symmetric])
qed

lemma compareWithOthers_value:
  assumes "map fst (scores a) = criteria" and "\<forall>b \<in> set others. map fst (scores b) = criteria"
  shows "compareWithOthers a others acc
         = Inr (acc @ map (\<lambda>(a, b). spec_tradeoff criteria a b)
                        (filter (\<lambda>(a, b). spec_hasTradeoff criteria a b) (map (Pair a) others)))"
  using assms(2)
proof (induction others arbitrary: acc)
  case Nil
  then show ?case by simp
next
  case (Cons b rest)
  have b: "map fst (scores b) = criteria" and rest: "\<forall>b \<in> set rest. map fst (scores b) = criteria"
    using Cons.prems by simp_all
  show ?case
    by (simp add: compareTwo_value [OF assms(1) b] Cons.IH [OF rest] spec_tradeoff_def)
qed

lemma comparePairs_value:
  assumes "\<forall>e \<in> set evaluatedOptions. map fst (scores e) = criteria"
  shows "comparePairs evaluatedOptions acc
         = Inr (acc @ map (\<lambda>(a, b). spec_tradeoff criteria a b)
                        (filter (\<lambda>(a, b). spec_hasTradeoff criteria a b)
                           (unorderedPairs evaluatedOptions)))"
  using assms
proof (induction evaluatedOptions arbitrary: acc)
  case Nil
  then show ?case by simp
next
  case (Cons a rest)
  have a: "map fst (scores a) = criteria" and rest: "\<forall>e \<in> set rest. map fst (scores e) = criteria"
    using Cons.prems by simp_all
  show ?case
    by (simp add: compareWithOthers_value [OF a rest] Cons.IH [OF rest])
qed

lemma set_unorderedPairs:
  "set (unorderedPairs xs) = {(xs ! i, xs ! j) | i j. i < j \<and> j < length xs}"
proof (induction xs)
  case Nil
  then show ?case by simp
next
  case (Cons x xs)
  show ?case (is "?L = ?R")
  proof (intro set_eqI iffI)
    fix p assume "p \<in> ?L"
    then consider y where "p = (x, y)" "y \<in> set xs" | "p \<in> set (unorderedPairs xs)" by auto
    then show "p \<in> ?R"
    proof cases
      case 1
      then obtain j where "j < length xs" "xs ! j = y" by (auto simp: in_set_conv_nth)
      then have "p = ((x # xs) ! 0, (x # xs) ! Suc j) \<and> 0 < Suc j \<and> Suc j < length (x # xs)"
        using 1 by simp
      then show ?thesis by blast
    next
      case 2
      with Cons.IH obtain i j where "p = (xs ! i, xs ! j)" "i < j" "j < length xs" by auto
      then have "p = ((x # xs) ! Suc i, (x # xs) ! Suc j) \<and> Suc i < Suc j \<and> Suc j < length (x # xs)"
        by simp
      then show ?thesis by blast
    qed
  next
    fix p assume "p \<in> ?R"
    then obtain i j where p: "p = ((x # xs) ! i, (x # xs) ! j)" and ij: "i < j" "j < length (x # xs)"
      by auto
    from ij obtain j' where j': "j = Suc j'" "j' < length xs" by (cases j) auto
    show "p \<in> ?L"
    proof (cases i)
      case 0
      then show ?thesis using p j' by simp
    next
      case (Suc i')
      then have "p = (xs ! i', xs ! j')" "i' < j'" using p j' ij by simp_all
      then have "p \<in> set (unorderedPairs xs)" using Cons.IH j' by auto
      then show ?thesis by simp
    qed
  qed
qed

text \<open>
  C6. On evaluated options that are all scored on the same criteria (as those built by
  \<open>evaluateOptions\<close> are), \<open>analyzeTradeoffs\<close> returns, in order, one record for each unordered
  pair \<open>(A, B)\<close> of entries \<open>i < j\<close> of the list, whatever their \<open>meetsConstraints\<close>, for which
  some criterion has \<open>A\<close>'s raw score more than 1 above \<open>B\<close>'s and some criterion has
  \<open>B\<close>'s more than 1 above \<open>A\<close>'s, and for no other pair; the record's \<open>aStrengths\<close> and
  \<open>bStrengths\<close> are the criteria whose raw scores differ by more than 1, split by which option
  leads.
\<close>

theorem C6_tradeoffs:
  assumes "\<forall>e \<in> set evaluatedOptions. map fst (scores e) = criteria"
  shows "analyzeTradeoffs evaluatedOptions
           = Inr (map (\<lambda>(a, b). spec_tradeoff criteria a b)
                    (filter (\<lambda>(a, b). spec_hasTradeoff criteria a b)
                       (unorderedPairs evaluatedOptions)))
         \<and> set (unorderedPairs evaluatedOptions)
             = {(evaluatedOptions ! i, evaluatedOptions ! j) | i j. i < j \<and> j < length evaluatedOptions}"
  using comparePairs_value [OF assms, of "[]"]
  by (simp add: analyzeTradeoffs_def set_unorderedPairs)

theorem C6_witness:
  "map (\<lambda>e. map fst (scores e)) crossed
     = [[''performance'', ''cost''], [''performance'', ''cost''], [''performance'', ''cost'']]
   \<and> map (\<lambda>e. map (raw \<circ> snd) (scores e)) crossed = [[9, 2], [5, 6], [3, 5]]
   \<and> (\<exists>ts. analyzeTradeoffs crossed = Inr ts
          \<and> map (\<lambda>t. (optionA t, optionB t, aStrengths t, bStrengths t)) ts
             = [(''A'', ''B'', [''performance''], [''cost'']),
                (''A'', ''C'', [''performance''], [''cost''])])"
  using C6_tradeoffs [of crossed "[''performance'', ''cost'']", THEN conjunct1]
  by (simp add: crossed_def crossedDraws_def evaluate_simps spec_tradeoff_def spec_hasTradeoff_def
      spec_strengths_def rawOf_def)

subsection \<open>Summary\<close>

lemma sumRaw_returns:
  assumes "\<forall>e \<in> set evaluatedOptions. map_of (scores e) criterion \<noteq> None"
  shows "\<exists>v. sumRaw criterion evaluatedOptions acc = Inr v"
  using assms by (induction evaluatedOptions arbitrary: acc) auto

lemma averageScores_returns:
  assumes "\<forall>c \<in> set criteria. \<forall>e \<in> set evaluatedOptions. map_of (scores e) c \<noteq> None"
  shows "\<exists>v. averageScores criteria evaluatedOptions avgScores = Inr v"
  using assms
proof (induction criteria arbitrary: avgScores)
  case Nil
  then show ?case by simp
next
  case (Cons c rest)
  then have "\<forall>e \<in> set evaluatedOptions. map_of (scores e) c \<noteq> None" by simp
  from sumRaw_returns [OF this, of 0] obtain v where "sumRaw c evaluatedOptions 0 = Inr v" ..
  moreover have "\<forall>c \<in> set rest. \<forall>e \<in> set evaluatedOptions. map_of (scores e) c \<noteq> None"
    using Cons.prems by simp
  ultimately show ?case using Cons.IH by simp
qed

lemma generateSummary_returns:
  assumes "evaluatedOptions \<noteq> []"
    and "\<forall>e \<in> set evaluatedOptions. map fst (scores e) = criteria"
  shows "\<exists>sm. generateSummary toFixed evaluatedOptions cs = Inr sm"
proof -
  from assms(1) obtain first rest where ev: "evaluatedOptions = first # rest"
    by (cases evaluatedOptions) auto
  have keys: "map fst (scores first) = criteria" using assms(2) ev by simp
  have "\<forall>c \<in> set criteria. \<forall>e \<in> set evaluatedOptions. map_of (scores e) c \<noteq> None"
    using assms(2) has_scores by metis
  from averageScores_returns [OF this, of "[]"] obtain avg where
    "averageScores criteria evaluatedOptions [] = Inr avg" ..
  then show ?thesis
    using ev keys by (simp add: generateSummary_def generateKeyInsight_def Let_def)
qed

text \<open>
  C7. On the empty list \<open>generateSummary\<close> does not return a summary: \<open>generateKeyInsight\<close>
  reads \<open>evaluatedOptions[0].scores\<close> and throws.
\<close>

theorem C7_empty_list_throws:
  "generateSummary toFixed [] cs = Inl TypeError"
  by (simp add: generateSummary_def generateKeyInsight_def)

subsection \<open>The whole comparison\<close>

text \<open>
  C2. A call of \<open>compare\<close> with at least one option returns a result. In every result
  returned, the comparison list consists of the input options, in order, each extended with
  its derived fields; and the recommendation's choice, when it is not null, is an entry of that
  list whose \<open>meetsConstraints\<close> is true.
\<close>

theorem C2_compare:
  "(options \<noteq> [] \<longrightarrow> (\<exists>r. compare toFixed rnd options criteria cs = Inr r))
   \<and> (\<forall>r. compare toFixed rnd options criteria cs = Inr r \<longrightarrow>
          map base (comparison r) = options
          \<and> (\<forall>opt. choice (recommendation r) = Some opt \<longrightarrow>
                 opt \<in> set (comparison r) \<and> meetsConstraints opt))"
proof (intro conjI impI allI)
  let ?evs = "evaluateOptions toFixed rnd options criteria cs"
  assume ne: "options \<noteq> []"
  have "distinct (map oid ?evs)" by (simp add: oid_evaluateOptions)
  from generateRecommendation_returns [OF this] obtain rc where
    rc: "generateRecommendation toFixed ?evs cs = Inr rc" ..
  from comparePairs_value [OF scores_evaluateOptions, of toFixed rnd options criteria cs "[]"]
  obtain ts where ts: "analyzeTradeoffs ?evs = Inr ts" by (simp add: analyzeTradeoffs_def)
  have "?evs \<noteq> []" using ne length_evaluateOptions [of toFixed rnd options criteria cs] by auto
  from generateSummary_returns [OF this scores_evaluateOptions] obtain sm where
    sm: "generateSummary toFixed ?evs cs = Inr sm" ..
  show "\<exists>r. compare toFixed rnd options criteria cs = Inr r"
    using rc ts sm by (simp add: compare_def Let_def)
next
  fix r assume r: "compare toFixed rnd options criteria cs = Inr r"
  let ?evs = "evaluateOptions toFixed rnd options criteria cs"
  from r have cmp: "comparison r = ?evs"
    and rec: "generateRecommendation toFixed ?evs cs = Inr (recommendation r)"
    by (auto simp: compare_def Let_def split: sum.splits)
  show "map base (comparison r) = options" using cmp by (simp add: base_evaluateOptions)
  fix opt assume "choice (recommendation r) = Some opt"
  from choice_meetsConstraints [OF rec this] cmp
  show "opt \<in> set (comparison r)" and "meetsConstraints opt" by simp_all
qed

theorem C2_witness:
  "threeOptions \<noteq> []
   \<and> (\<exists>r. compare plain crossedDraws threeOptions [''performance'', ''cost'']
                (noConstraints\<lparr>maxCost := Some 150\<rparr>) = Inr r
          \<and> map base (comparison r) = threeOptions
          \<and> map meetsConstraints (comparison r) = [True, False, False]
          \<and> map oid (comparison r) = [0, 1, 2]
          \<and> map oid (case choice (recommendation r) of Some opt \<Rightarrow> [opt] | None \<Rightarrow> []) = [0])"
  using C2_compare [of threeOptions plain crossedDraws "[''performance'', ''cost'']"
      "noConstraints\<lparr>maxCost := Some 150\<rparr>"]
  by (simp add: threeOptions_def compare_def crossedDraws_def evaluate_simps recommend_simps
      tradeoff_simps summary_simps)

end
